theory Spec2Isabelle
  imports Complex_Main "HOL-Library.Product_Lexorder"
begin

section \<open>Searching embedded spectra against a FAISS index\<close>

text \<open>
  A shallow embedding of \<^verbatim>\<open>src/DLEAMSE/search_vectors_against_index.py\<close>.
  A numpy array of floats is a list of rows of reals (float32 idealised as \<open>real\<close>),
  an array of ids a list of rows of integers. What the FAISS, h5py and numpy libraries do
  is not part of the file; their calls are parameters of the functions that make them.
\<close>

subsection \<open>Arrays\<close>

type_synonym ndarray = "real list list"
type_synonym id_array = "int list list"

subsection \<open>\<^verbatim>\<open>Faiss_Index_Search.search_index\<close>\<close>

text \<open>
  \<^verbatim>\<open>D, I = index.search(embedded, k); D = D ** 0.5; return D, I\<close>.
  The first argument is the \<^verbatim>\<open>search\<close> method of the index object, whatever kind of
  index it is; an exception it raises leaves the wrapper unchanged. numpy computes the
  power \<open>0.5\<close> of an array element by element, as the square root. (Of a negative
  element numpy makes \<^verbatim>\<open>nan\<close>, which a real number does not model; a squared distance
  is not negative.)
\<close>

definition search_index ::
  "('idx \<Rightarrow> ndarray \<Rightarrow> int \<Rightarrow> 'e + ndarray \<times> id_array) \<Rightarrow> 'idx \<Rightarrow> ndarray \<Rightarrow> int
     \<Rightarrow> 'e + ndarray \<times> id_array" where
  "search_index search index embedded k =
     (case search index embedded k of
        Inl e \<Rightarrow> Inl e
      | Inr (D, I) \<Rightarrow> Inr (map (map sqrt) D, I))"

subsection \<open>Strings\<close>

text \<open>
  A path is a Python \<^verbatim>\<open>str\<close> of code points below 256, one \<open>char\<close> each.
  \<^verbatim>\<open>s.rfind(".")\<close> is the highest index of a dot in \<open>s\<close>, or \<open>-1\<close> where there is
  none; \<^verbatim>\<open>s[i:]\<close> counts a negative \<open>i\<close> from the end and clips it to the string;
  \<^verbatim>\<open>s.lower()\<close> maps the letters \<open>A\<close> to \<open>Z\<close>, and the capital letters of Latin-1, to
  their small letters.
\<close>

primrec rfind_from :: "char \<Rightarrow> string \<Rightarrow> int \<Rightarrow> int \<Rightarrow> int" where
  "rfind_from c [] i found = found"
| "rfind_from c (x # xs) i found = rfind_from c xs (i + 1) (if x = c then i else found)"

definition rfind :: "string \<Rightarrow> char \<Rightarrow> int" where
  "rfind s c = rfind_from c s 0 (- 1)"

definition slice_from :: "string \<Rightarrow> int \<Rightarrow> string" where
  "slice_from s i = (if i < 0 then drop (nat (int (length s) + i)) s else drop (nat i) s)"

definition lower_char :: "char \<Rightarrow> char" where
  "lower_char c =
     (let n = (of_char c :: nat)
      in if (65 \<le> n \<and> n \<le> 90) \<or> (192 \<le> n \<and> n \<le> 222 \<and> n \<noteq> 215)
         then char_of (n + 32) else c)"

definition lower :: "string \<Rightarrow> string" where
  "lower s = map lower_char s"

subsection \<open>Module constants\<close>

definition H5_MATRIX_NAME :: string where
  "H5_MATRIX_NAME = ''MATRIX''"

definition DEFAULT_IVF_NLIST :: int where
  "DEFAULT_IVF_NLIST = 100"

subsection \<open>\<^verbatim>\<open>Faiss_write_index.make_faiss_index\<close>\<close>

text \<open>
  The index objects the function constructs, by the FAISS class and the arguments of the
  constructor (GPU resources and configurations are the defaults, and left out). The
  first argument of \<open>make_faiss_index\<close> is what \<^verbatim>\<open>faiss.get_num_gpus()\<close> returns.
  \<open>shape1\<close> is \<^verbatim>\<open>spectra_vectors.shape[1]\<close>, which \<^verbatim>\<open>create_index\<close> passes on
  (an array of no rows is given no columns here).
\<close>

datatype metric = METRIC_L2

datatype faiss_index =
    GpuIndexFlatL2 int
  | GpuIndexIVFFlat int int metric
  | IndexFlatL2 int
  | IndexIVFFlat faiss_index int int metric

datatype index_error = UnknownIndexType string  \<comment> \<open>\<^verbatim>\<open>ValueError("Unknown index_type %s")\<close>\<close>

definition make_faiss_index :: "int \<Rightarrow> int \<Rightarrow> string \<Rightarrow> index_error + faiss_index" where
  "make_faiss_index num_gpus n_dimensions index_type =
     (if num_gpus \<noteq> 0 then
        (if index_type = ''flat'' then Inr (GpuIndexFlatL2 n_dimensions)
         else if index_type = ''ivfflat'' then
           Inr (GpuIndexIVFFlat n_dimensions DEFAULT_IVF_NLIST METRIC_L2)
         else Inl (UnknownIndexType index_type))
      else
        (if index_type = ''flat'' then Inr (IndexFlatL2 n_dimensions)
         else if index_type = ''ivfflat'' then
           Inr (IndexIVFFlat (IndexFlatL2 n_dimensions) n_dimensions DEFAULT_IVF_NLIST METRIC_L2)
         else Inl (UnknownIndexType index_type)))"

fun nlist :: "faiss_index \<Rightarrow> int option" where
  "nlist (GpuIndexIVFFlat d n m) = Some n"
| "nlist (IndexIVFFlat quantizer d n m) = Some n"
| "nlist (GpuIndexFlatL2 d) = None"
| "nlist (IndexFlatL2 d) = None"

definition shape1 :: "ndarray \<Rightarrow> int" where
  "shape1 a = (case a of [] \<Rightarrow> 0 | row # _ \<Rightarrow> int (length row))"

text \<open>
  The number of clusters of the index of type \<^verbatim>\<open>ivfflat\<close> that \<open>make_faiss_index\<close>
  constructs for a corpus: of the corpus it is given the number of columns, nothing else.
\<close>

definition ivf_nlist :: "int \<Rightarrow> ndarray \<Rightarrow> int option" where
  "ivf_nlist num_gpus spectra_vectors =
     (case make_faiss_index num_gpus (shape1 spectra_vectors) ''ivfflat'' of
        Inl e \<Rightarrow> None
      | Inr index \<Rightarrow> nlist index)"

subsection \<open>\<^verbatim>\<open>Faiss_Index_Search.load_embedded_spectra_vector\<close>\<close>

text \<open>
  The file system and the three readers are parameters: \<^verbatim>\<open>os.path.exists\<close>, reading
  a named dataset of an HDF5 file with h5py, \<^verbatim>\<open>np.load\<close>, \<^verbatim>\<open>np.loadtxt\<close>, and the
  conversion of a number to float32. A reader returns an array or raises an exception of
  its own, of type \<open>'e\<close>, which the loader lets through (\<^verbatim>\<open>raise e\<close>).
\<close>

record 'e files =
  path_exists :: "string \<Rightarrow> bool"
  h5_read :: "string \<Rightarrow> string \<Rightarrow> 'e + ndarray"
  np_load :: "string \<Rightarrow> 'e + ndarray"
  np_loadtxt :: "string \<Rightarrow> 'e + ndarray"
  float32 :: "real \<Rightarrow> real"

datatype 'e load_error =
    FileDoesNotExist string  \<comment> \<open>\<^verbatim>\<open>Exception('File "{}" does not exists')\<close>, with the path\<close>
  | UnknownExtension string string  \<comment> \<open>\<^verbatim>\<open>ValueError("read_array_file: Unknown extension {} for file {}")\<close>\<close>
  | Raised 'e  \<comment> \<open>an exception of a reader\<close>

definition extension_lower :: "string \<Rightarrow> string" where
  "extension_lower filepath = lower (slice_from filepath (rfind filepath (CHR ''.'')))"

definition load_embedded_spectra_vector :: "'e files \<Rightarrow> string \<Rightarrow> 'e load_error + ndarray" where
  "load_embedded_spectra_vector fs filepath =
     (if path_exists fs filepath then
        (if extension_lower filepath = ''.h5'' then
           (case h5_read fs filepath H5_MATRIX_NAME of
              Inl e \<Rightarrow> Inl (Raised e)
            | Inr result \<Rightarrow> Inr result)
         else if extension_lower filepath = ''.npy'' then
           (case np_load fs filepath of
              Inl e \<Rightarrow> Inl (Raised e)
            | Inr result \<Rightarrow> Inr result)
         else if extension_lower filepath = ''.txt'' then
           (case np_loadtxt fs filepath of
              Inl e \<Rightarrow> Inl (Raised e)
            | Inr vectors \<Rightarrow> Inr (map (map (float32 fs)) vectors))
         else Inl (UnknownExtension (extension_lower filepath) filepath))
      else Inl (FileDoesNotExist filepath))"

subsection \<open>\<^verbatim>\<open>Faiss_Index_Search.write_search_results\<close>\<close>

text \<open>
  An HDF5 file is the list of its datasets by name, in the order of their creation; a
  dataset is its data and whether its storage is chunked. \<^verbatim>\<open>create_dataset\<close> refuses
  a name the file has already. Opening a path with \<^verbatim>\<open>h5py.File(outpath, 'w')\<close> can fail
  (a directory that does not exist, a path that may not be written): the parameter
  \<open>open_w\<close> gives the exception that it raises for a path, if it raises one, and then
  nothing is written and the disk stays as it was. Otherwise the file starts empty,
  whatever was at the path, and leaving the \<^verbatim>\<open>with\<close> block stores it.
\<close>

datatype h5_data = IntVector "int list" | FloatMatrix ndarray | IntMatrix id_array

record h5_dataset =
  ds_data :: h5_data
  ds_chunks :: bool

type_synonym h5_file = "(string \<times> h5_dataset) list"

datatype 'e h5_error =
    OpenFailed 'e  \<comment> \<open>the exception of \<^verbatim>\<open>h5py.File(outpath, 'w')\<close>\<close>
  | NameAlreadyExists string

definition create_dataset ::
  "h5_file \<Rightarrow> string \<Rightarrow> h5_data \<Rightarrow> bool \<Rightarrow> 'e h5_error + h5_file" where
  "create_dataset h5f name d chunked =
     (if name \<in> set (map fst h5f) then Inl (NameAlreadyExists name)
      else Inr (h5f @ [(name, \<lparr>ds_data = d, ds_chunks = chunked\<rparr>)]))"

definition write_search_results ::
  "(string \<Rightarrow> 'e option) \<Rightarrow> ndarray \<Rightarrow> id_array \<Rightarrow> string \<Rightarrow> (string \<rightharpoonup> h5_file)
     \<Rightarrow> 'e h5_error + (string \<rightharpoonup> h5_file)" where
  "write_search_results open_w D I outpath disk =
     (case open_w outpath of
        Some e \<Rightarrow> Inl (OpenFailed e)
      | None \<Rightarrow>
          (case create_dataset [] ''spectrum_ids'' (IntVector (map int [0..<length D])) True of
             Inl e \<Rightarrow> Inl e
           | Inr h5f1 \<Rightarrow>
               (case create_dataset h5f1 ''D'' (FloatMatrix D) True of
                  Inl e \<Rightarrow> Inl e
                | Inr h5f2 \<Rightarrow>
                    (case create_dataset h5f2 ''I'' (IntMatrix I) True of
                       Inl e \<Rightarrow> Inl e
                     | Inr h5f3 \<Rightarrow> Inr (disk(outpath \<mapsto> h5f3))))))"

subsection \<open>The search of a flat index\<close>

text \<open>
  Modelled from the spec: the \<^verbatim>\<open>search\<close> method of a flat FAISS index
  (\<^verbatim>\<open>IndexFlatL2.search\<close>), which \<open>search_index\<close> calls and which is code of the
  FAISS library, not of \<^verbatim>\<open>src/\<close>. By the spec, a flat index owns its corpus and has
  a fixed dimension; a vector's id is its position in the corpus; a search fails with
  \<open>DimensionMismatch\<close> if a query's length is not the dimension; for each query it
  computes the squared L2 distance to every vector of the corpus and selects the \<open>k\<close>
  smallest, ties broken by the lowest id; where fewer than \<open>k\<close> neighbours exist, the
  other slots hold the sentinel id for "no result". The spec names no distance for such a
  slot: it is the parameter \<open>no_distance\<close>. Pairs of a distance and an id are ordered
  by the distance first and the id second.
\<close>

record flat_index =
  dimension :: nat
  corpus :: ndarray

datatype search_error = DimensionMismatch

definition NO_RESULT :: int where
  "NO_RESULT = - 1"

definition squared_l2 :: "real list \<Rightarrow> real list \<Rightarrow> real" where
  "squared_l2 a b = (\<Sum>(x, y)\<leftarrow>zip a b. (x - y)\<^sup>2)"

definition nearest :: "ndarray \<Rightarrow> real list \<Rightarrow> (real \<times> int) list" where
  "nearest vectors query =
     sort (zip (map (squared_l2 query) vectors) (map int [0..<length vectors]))"

definition flat_row :: "real \<Rightarrow> ndarray \<Rightarrow> nat \<Rightarrow> real list \<Rightarrow> (real \<times> int) list" where
  "flat_row no_distance vectors k query =
     take k (nearest vectors query) @ replicate (k - length vectors) (no_distance, NO_RESULT)"

definition flat_search ::
  "real \<Rightarrow> flat_index \<Rightarrow> ndarray \<Rightarrow> int \<Rightarrow> search_error + ndarray \<times> id_array" where
  "flat_search no_distance index queries k =
     (if list_ex (\<lambda>q. length q \<noteq> dimension index) queries then Inl DimensionMismatch
      else Inr (map (map fst \<circ> flat_row no_distance (corpus index) (nat k)) queries,
                map (map snd \<circ> flat_row no_distance (corpus index) (nat k)) queries))"

subsection \<open>Examples\<close>


definition example_files :: "string files" where
  "example_files =
     \<lparr>path_exists = (\<lambda>p. p \<in> set [''run1.h5'', ''run2.NPY'', ''run3.txt'', ''run4.csv'', ''other.H5'']),
      h5_read = (\<lambda>p name. if p = ''run1.h5'' \<and> name = ''MATRIX'' then Inr [[1, 2]] else Inl ''KeyError''),
      np_load = (\<lambda>p. Inr [[3, 4]]),
      np_loadtxt = (\<lambda>p. Inr [[5, 6]]),
      float32 = (\<lambda>x. x)\<rparr>"

section \<open>Properties\<close>

subsection \<open>The extension of a path\<close>

lemma rfind_from_absent: "c \<notin> set e \<Longrightarrow> rfind_from c e i found = found"
  by (induction e arbitrary: i) auto

lemma rfind_from_append:
  "c \<notin> set e \<Longrightarrow> rfind_from c (stem @ c # e) i found = i + int (length stem)"
  by (induction stem arbitrary: i found) (auto simp add: rfind_from_absent)

lemma lower_char_dot_iff: "lower_char c = CHR ''.'' \<longleftrightarrow> c = CHR ''.''"
proof
  assume h: "lower_char c = CHR ''.''"
  show "c = CHR ''.''"
  proof (rule ccontr)
    assume n: "c \<noteq> CHR ''.''"
    let ?n = "of_char c :: nat"
    from h n have up: "(65 \<le> ?n \<and> ?n \<le> 90) \<or> (192 \<le> ?n \<and> ?n \<le> 222 \<and> ?n \<noteq> 215)"
      and e: "char_of (?n + 32) = CHR ''.''"
      by (auto simp add: lower_char_def Let_def split: if_splits)
    from e have "(?n + 32) mod 256 = 46"
      by (simp add: char_of_eq_iff take_bit_eq_mod)
    with up show False by (simp add: mod_if split: if_splits)
  qed
next
  assume "c = CHR ''.''"
  then show "lower_char c = CHR ''.''" by (simp add: lower_char_def)
qed

lemma dot_in_lower: "CHR ''.'' \<in> set (lower e) \<longleftrightarrow> CHR ''.'' \<in> set e"
proof -
  have "CHR ''.'' \<in> lower_char ` set e \<longleftrightarrow> (\<exists>c\<in>set e. lower_char c = CHR ''.'')"
    by (simp only: image_iff eq_commute)
  then show ?thesis by (simp add: lower_def lower_char_dot_iff)
qed

lemma slice_from_is_drop: "\<exists>m. slice_from s i = drop m s"
  by (auto simp add: slice_from_def)

lemma extension_lower_append:
  "CHR ''.'' \<notin> set e \<Longrightarrow> extension_lower (stem @ CHR ''.'' # e) = CHR ''.'' # lower e"
  by (simp add: extension_lower_def rfind_def rfind_from_append slice_from_def lower_def lower_char_def)

lemma extension_lower_eq_iff:
  assumes "CHR ''.'' \<notin> set x"
  shows "extension_lower p = CHR ''.'' # x \<longleftrightarrow> (\<exists>stem e. p = stem @ CHR ''.'' # e \<and> lower e = x)"
proof
  assume h: "extension_lower p = CHR ''.'' # x"
  obtain m where m: "slice_from p (rfind p (CHR ''.'')) = drop m p"
    using slice_from_is_drop by blast
  from h m have "lower (drop m p) = CHR ''.'' # x" by (simp add: extension_lower_def)
  then obtain c e where ce: "drop m p = c # e" "lower_char c = CHR ''.''" "lower e = x"
    by (auto simp add: lower_def map_eq_Cons_conv)
  then have "c = CHR ''.''" by (simp add: lower_char_dot_iff)
  with ce have "p = take m p @ CHR ''.'' # e" by (metis append_take_drop_id)
  with ce show "\<exists>stem e. p = stem @ CHR ''.'' # e \<and> lower e = x" by blast
next
  assume "\<exists>stem e. p = stem @ CHR ''.'' # e \<and> lower e = x"
  then obtain stem e where p: "p = stem @ CHR ''.'' # e" and e: "lower e = x" by blast
  from assms e have "CHR ''.'' \<notin> set e" using dot_in_lower by blast
  with p e show "extension_lower p = CHR ''.'' # x" by (simp add: extension_lower_append)
qed

subsection \<open>The nearest vectors of a flat index\<close>










text \<open>
  Whatever the distance of a slot of no result is, some vector is farther from a query
  than its root: next to that vector, the padded slot breaks the order of the row.
\<close>

lemma padded_row_not_sorted:
  "search_index (flat_search no_distance) \<lparr>dimension = 1, corpus = [[\<bar>no_distance\<bar> + 1]]\<rparr> [[0]] 2
     = Inr ([[\<bar>no_distance\<bar> + 1, sqrt no_distance]], [[0, NO_RESULT]])
   \<and> sqrt no_distance < \<bar>no_distance\<bar> + 1"
proof -
  have sq: "(\<bar>no_distance\<bar> + 1)\<^sup>2 = \<bar>no_distance\<bar>\<^sup>2 + 2 * \<bar>no_distance\<bar> + 1"
    by (simp add: power2_sum)
  have "0 \<le> \<bar>no_distance\<bar>\<^sup>2" "no_distance \<le> \<bar>no_distance\<bar>" "0 \<le> \<bar>no_distance\<bar>"
    by simp_all
  with sq have "no_distance < (\<bar>no_distance\<bar> + 1)\<^sup>2"
    by linarith
  then have "sqrt no_distance < sqrt ((\<bar>no_distance\<bar> + 1)\<^sup>2)"
    by (simp only: real_sqrt_less_iff)
  then have lt: "sqrt no_distance < \<bar>no_distance\<bar> + 1"
    by simp
  have row: "flat_row no_distance [[\<bar>no_distance\<bar> + 1]] 2 [0]
      = [((\<bar>no_distance\<bar> + 1)\<^sup>2, 0), (no_distance, NO_RESULT)]"
    by (simp add: flat_row_def nearest_def squared_l2_def numeral_2_eq_2)
  then have "search_index (flat_search no_distance) \<lparr>dimension = 1, corpus = [[\<bar>no_distance\<bar> + 1]]\<rparr> [[0]] 2
     = Inr ([[\<bar>no_distance\<bar> + 1, sqrt no_distance]], [[0, NO_RESULT]])"
    by (simp add: search_index_def flat_search_def row)
  with lt show ?thesis by simp
qed

subsection \<open>The search wrapper\<close>

text \<open>
  Claim C1. Whenever the search of the underlying index returns the squared distances
  \<open>D\<close>, the wrapper returns a matrix of the same shape whose every element is the square
  root of the element of \<open>D\<close> at the same place. The root is taken once: squaring a
  returned distance gives the squared distance back, for every squared distance that is
  not negative. The index and its search are arbitrary, so this holds for every kind of
  index.
\<close>

theorem search_index_sqrt_once:
  assumes "search index embedded k = Inr (D, I)"
  shows "\<exists>D' I'. search_index search index embedded k = Inr (D', I')
           \<and> length D' = length D
           \<and> (\<forall>i<length D. length (D' ! i) = length (D ! i)
                \<and> (\<forall>j<length (D ! i). D' ! i ! j = sqrt (D ! i ! j)
                      \<and> (0 \<le> D ! i ! j \<longrightarrow> (D' ! i ! j)\<^sup>2 = D ! i ! j)))"
  using assms by (simp add: search_index_def)

theorem search_index_sqrt_once_witness:
  "\<exists>D' I'. search_index (\<lambda>(idx::nat) q k. (Inr ([[0, 1, 4]], [[7, 3, 5]]) :: unit + ndarray \<times> id_array))
              2 [[0, 0]] 3 = Inr (D', I')
      \<and> length D' = 1 \<and> length (D' ! 0) = 3 \<and> D' ! 0 ! 2 = 2 \<and> (D' ! 0 ! 2)\<^sup>2 = 4"
  using search_index_sqrt_once
    [of "\<lambda>(idx::nat) q k. (Inr ([[0, 1, 4]], [[7, 3, 5]]) :: unit + ndarray \<times> id_array)"
        2 "[[0, 0]]" 3 "[[0, 1, 4]]" "[[7, 3, 5]]"]
  by (simp add: search_index_def)

text \<open>
  Claim C9. The wrapper hands the identifier matrix of the underlying search on as it is,
  and an error of the underlying search too: seen through the identifiers alone, the
  wrapper and the underlying search are the same function.
\<close>

theorem search_index_ids_unchanged:
  "map_sum id snd (search_index search index embedded k) = map_sum id snd (search index embedded k)"
  by (simp add: search_index_def split: sum.split prod.split)

subsection \<open>The loader of vectors\<close>

text \<open>
  Claim C3. The loader reads a path in one of three ways, chosen by the extension of the
  path alone: the dataset named \<open>MATRIX\<close> of an HDF5 file for \<open>.h5\<close>, the numpy
  binary format for \<open>.npy\<close>, a text table for \<open>.txt\<close> (the rows then converted to
  float32), and what the reader returns or raises is what the loader returns or raises.
  The extension is the part of the path from its last dot on, compared without regard to
  case: it is one of the three exactly when the path is some stem, a dot, and \<open>h5\<close>,
  \<open>npy\<close> or \<open>txt\<close> in any case. A path that exists with any other extension fails
  with the error for an unknown extension, and a path that does not exist fails with the
  error for a missing file.
\<close>

theorem load_formats:
  "(extension_lower filepath \<in> {''.h5'', ''.npy'', ''.txt''} \<longleftrightarrow>
      (\<exists>stem e. filepath = stem @ CHR ''.'' # e \<and> lower e \<in> {''h5'', ''npy'', ''txt''}))
   \<and> (\<not> path_exists fs filepath \<longrightarrow>
        load_embedded_spectra_vector fs filepath = Inl (FileDoesNotExist filepath))
   \<and> (path_exists fs filepath \<and> extension_lower filepath \<notin> {''.h5'', ''.npy'', ''.txt''} \<longrightarrow>
        load_embedded_spectra_vector fs filepath =
          Inl (UnknownExtension (extension_lower filepath) filepath))
   \<and> (path_exists fs filepath \<and> extension_lower filepath = ''.h5'' \<longrightarrow>
        load_embedded_spectra_vector fs filepath = map_sum Raised id (h5_read fs filepath ''MATRIX''))
   \<and> (path_exists fs filepath \<and> extension_lower filepath = ''.npy'' \<longrightarrow>
        load_embedded_spectra_vector fs filepath = map_sum Raised id (np_load fs filepath))
   \<and> (path_exists fs filepath \<and> extension_lower filepath = ''.txt'' \<longrightarrow>
        load_embedded_spectra_vector fs filepath =
          map_sum Raised (map (map (float32 fs))) (np_loadtxt fs filepath))"
proof -
  have "extension_lower filepath \<in> {''.h5'', ''.npy'', ''.txt''} \<longleftrightarrow>
      (\<exists>stem e. filepath = stem @ CHR ''.'' # e \<and> lower e \<in> {''h5'', ''npy'', ''txt''})"
    using extension_lower_eq_iff [of "''h5''" filepath]
      extension_lower_eq_iff [of "''npy''" filepath]
      extension_lower_eq_iff [of "''txt''" filepath]
    by (simp only: insert_iff empty_iff) (simp, blast)
  moreover have "\<not> path_exists fs filepath \<longrightarrow>
        load_embedded_spectra_vector fs filepath = Inl (FileDoesNotExist filepath)"
    by (simp add: load_embedded_spectra_vector_def)
  moreover have "path_exists fs filepath \<and> extension_lower filepath \<notin> {''.h5'', ''.npy'', ''.txt''} \<longrightarrow>
        load_embedded_spectra_vector fs filepath =
          Inl (UnknownExtension (extension_lower filepath) filepath)"
    by (simp add: load_embedded_spectra_vector_def)
  moreover have "path_exists fs filepath \<and> extension_lower filepath = ''.h5'' \<longrightarrow>
        load_embedded_spectra_vector fs filepath = map_sum Raised id (h5_read fs filepath ''MATRIX'')"
    by (simp add: load_embedded_spectra_vector_def H5_MATRIX_NAME_def split: sum.split)
  moreover have "path_exists fs filepath \<and> extension_lower filepath = ''.npy'' \<longrightarrow>
        load_embedded_spectra_vector fs filepath = map_sum Raised id (np_load fs filepath)"
    by (simp add: load_embedded_spectra_vector_def split: sum.split)
  moreover have "path_exists fs filepath \<and> extension_lower filepath = ''.txt'' \<longrightarrow>
        load_embedded_spectra_vector fs filepath =
          map_sum Raised (map (map (float32 fs))) (np_loadtxt fs filepath)"
    by (simp add: load_embedded_spectra_vector_def split: sum.split)
  ultimately show ?thesis by (intro conjI)
qed

theorem load_formats_witness:
  "load_embedded_spectra_vector example_files ''missing.h5'' = Inl (FileDoesNotExist ''missing.h5'')
   \<and> load_embedded_spectra_vector example_files ''run4.csv'' = Inl (UnknownExtension ''.csv'' ''run4.csv'')
   \<and> load_embedded_spectra_vector example_files ''run1.h5'' = Inr [[1, 2]]
   \<and> load_embedded_spectra_vector example_files ''other.H5'' = Inl (Raised ''KeyError'')
   \<and> load_embedded_spectra_vector example_files ''run2.NPY'' = Inr [[3, 4]]
   \<and> load_embedded_spectra_vector example_files ''run3.txt'' = Inr [[5, 6]]"
  using load_formats [of "''missing.h5''" example_files, THEN conjunct2]
    load_formats [of "''run4.csv''" example_files, THEN conjunct2]
    load_formats [of "''run1.h5''" example_files, THEN conjunct2]
    load_formats [of "''other.H5''" example_files, THEN conjunct2]
    load_formats [of "''run2.NPY''" example_files, THEN conjunct2]
    load_formats [of "''run3.txt''" example_files, THEN conjunct2]
  by (simp add: example_files_def extension_lower_def rfind_def slice_from_def lower_def
      lower_char_def char_of_eq_iff)

text \<open>
  Claim C10. The loader looks whether the path exists before it looks at the extension:
  a path that does not exist fails with the error for a missing file whatever its
  extension is, and whenever the loader fails with the error for an unknown extension,
  the path exists (and the error names the extension and the path it was given).
\<close>

theorem load_exists_before_extension:
  "(\<not> path_exists fs filepath \<longrightarrow>
      load_embedded_spectra_vector fs filepath = Inl (FileDoesNotExist filepath))
   \<and> (load_embedded_spectra_vector fs filepath = Inl (UnknownExtension ext p) \<longrightarrow>
        path_exists fs filepath \<and> ext = extension_lower filepath \<and> p = filepath)"
  by (auto simp add: load_embedded_spectra_vector_def split: sum.splits if_splits)

theorem load_exists_before_extension_witness:
  "\<not> path_exists example_files ''missing.csv''
   \<and> load_embedded_spectra_vector example_files ''missing.csv'' = Inl (FileDoesNotExist ''missing.csv'')
   \<and> load_embedded_spectra_vector example_files ''run4.csv'' = Inl (UnknownExtension ''.csv'' ''run4.csv'')
   \<and> path_exists example_files ''run4.csv''"
  using load_exists_before_extension [of example_files "''missing.csv''"]
    load_exists_before_extension [of example_files "''run4.csv''" "''.csv''" "''run4.csv''"]
  by (simp add: load_embedded_spectra_vector_def example_files_def extension_lower_def rfind_def
      slice_from_def lower_def lower_char_def char_of_eq_iff)

subsection \<open>The writer of results\<close>

text \<open>
  Claim C4. Where the output file can be opened for writing, writing the results of a
  search of \<open>Q\<close> queries succeeds and leaves at the output path a file of exactly three
  datasets: \<open>spectrum_ids\<close>, the numbers \<open>0\<close> to \<open>Q - 1\<close>; \<open>D\<close>, the distance
  matrix as given; \<open>I\<close>, the id matrix as given; each with chunked storage. No other
  path changes. Where the file cannot be opened, the writer fails with the exception of
  the opening and stores nothing.
\<close>

theorem write_search_results_datasets:
  "(open_w outpath = None \<longrightarrow>
      write_search_results open_w D I outpath disk =
        Inr (disk(outpath \<mapsto>
          [(''spectrum_ids'', \<lparr>ds_data = IntVector (map int [0..<length D]), ds_chunks = True\<rparr>),
           (''D'', \<lparr>ds_data = FloatMatrix D, ds_chunks = True\<rparr>),
           (''I'', \<lparr>ds_data = IntMatrix I, ds_chunks = True\<rparr>)])))
   \<and> (open_w outpath = Some e \<longrightarrow>
        write_search_results open_w D I outpath disk = Inl (OpenFailed e))"
  by (simp add: write_search_results_def create_dataset_def)

theorem write_search_results_datasets_witness:
  "write_search_results (\<lambda>p. if p = ''/nowhere/out.h5'' then Some ''FileNotFoundError'' else None)
      [[0, 1], [1, 1]] [[0, 1], [1, 2]] ''out.h5'' Map.empty =
     Inr [''out.h5'' \<mapsto>
       [(''spectrum_ids'', \<lparr>ds_data = IntVector [0, 1], ds_chunks = True\<rparr>),
        (''D'', \<lparr>ds_data = FloatMatrix [[0, 1], [1, 1]], ds_chunks = True\<rparr>),
        (''I'', \<lparr>ds_data = IntMatrix [[0, 1], [1, 2]], ds_chunks = True\<rparr>)]]
   \<and> write_search_results (\<lambda>p. if p = ''/nowhere/out.h5'' then Some ''FileNotFoundError'' else None)
      [[0, 1], [1, 1]] [[0, 1], [1, 2]] ''/nowhere/out.h5'' Map.empty =
     Inl (OpenFailed ''FileNotFoundError'')"
  using write_search_results_datasets
      [of "\<lambda>p. if p = ''/nowhere/out.h5'' then Some ''FileNotFoundError'' else None" "''out.h5''"
          "[[0, 1], [1, 1]]" "[[0, 1], [1, 2]]" Map.empty "''FileNotFoundError''"]
    write_search_results_datasets
      [of "\<lambda>p. if p = ''/nowhere/out.h5'' then Some ''FileNotFoundError'' else None"
          "''/nowhere/out.h5''" "[[0, 1], [1, 1]]" "[[0, 1], [1, 2]]" Map.empty "''FileNotFoundError''"]
  by (simp add: upt_rec)

subsection \<open>The number of clusters\<close>

text \<open>
  Claim C5, as stated, fails: the number of clusters is not proportional to the size of
  the corpus. A corpus of two vectors has twice the size of a corpus of one, and the
  index made for it has the same number of clusters, not twice the number.
\<close>

theorem ivf_nlist_not_proportional:
  "length [[0, 0], [3, 4::real]] = 2 * length [[0, 0::real]]
   \<and> ivf_nlist 0 [[0, 0], [3, 4]] \<noteq> map_option (\<lambda>c. 2 * c) (ivf_nlist 0 [[0, 0]])
   \<and> ivf_nlist 0 [[0, 0], [3, 4]] = ivf_nlist 0 [[0, 0]]"
  by (simp add: ivf_nlist_def make_faiss_index_def DEFAULT_IVF_NLIST_def shape1_def)

text \<open>
  Claim C5, amended. An index of type \<^verbatim>\<open>ivfflat\<close> is constructed with
  \<open>DEFAULT_IVF_NLIST = 100\<close> clusters, whatever the corpus, its size, its dimension and
  the number of GPUs are.
\<close>

theorem ivf_nlist_constant:
  "ivf_nlist num_gpus spectra_vectors = Some DEFAULT_IVF_NLIST \<and> DEFAULT_IVF_NLIST = 100
   \<and> map_sum id nlist (make_faiss_index num_gpus n_dimensions ''ivfflat'') = Inr (Some 100)"
  by (simp add: ivf_nlist_def make_faiss_index_def DEFAULT_IVF_NLIST_def)

subsection \<open>The search of a flat index through the wrapper\<close>






end
